theory Spec2Isabelle
  imports Complex_Main "HOL-Library.Word"
begin

section \<open>JavaScript values used by the dashboard component\<close>

text \<open>
  A JavaScript string is a sequence of UTF-16 code units; \<open>length\<close> counts code units,
  as the \<open>length\<close> property of a string does. \<open>lit\<close> embeds an ASCII literal of the
  source.
\<close>

type_synonym jsstring = "16 word list"

definition lit :: "string \<Rightarrow> jsstring" where
  "lit s = map (\<lambda>c. of_nat (of_char c)) s"

text \<open>
  The values the component reads through \<open>||\<close>, \<open>&&\<close> and \<open>if\<close>: a string, or
  \<open>undefined\<close> (a property that is absent). A string is truthy when it is not empty.
\<close>

datatype jsval = Undefined | Str jsstring

fun truthy :: "jsval \<Rightarrow> bool" where
  "truthy Undefined = False"
| "truthy (Str s) = (s \<noteq> [])"

definition js_or :: "jsval \<Rightarrow> jsval \<Rightarrow> jsval" where
  "js_or a b = (if truthy a then a else b)"

text \<open>
  Numbers: the relational operators on a number that is \<open>NaN\<close> are false. Both zeros
  compare equal, so one \<open>Finite 0\<close> stands for them.
\<close>

datatype jsnum = NaN | NegInfinity | Finite rat | PosInfinity

fun js_lt :: "jsnum \<Rightarrow> jsnum \<Rightarrow> bool" where
  "js_lt NaN _ = False"
| "js_lt _ NaN = False"
| "js_lt NegInfinity NegInfinity = False"
| "js_lt NegInfinity _ = True"
| "js_lt (Finite x) (Finite y) = (x < y)"
| "js_lt (Finite x) PosInfinity = True"
| "js_lt (Finite x) NegInfinity = False"
| "js_lt PosInfinity _ = False"

definition js_gt :: "jsnum \<Rightarrow> jsnum \<Rightarrow> bool" where
  "js_gt a b = js_lt b a"

text \<open>
  \<open>String.prototype.trim\<close> strips, and \<open>\s\<close> in a regular expression matches, the
  code units of WhiteSpace and LineTerminator.
\<close>

definition isWhiteSpace :: "16 word \<Rightarrow> bool" where
  "isWhiteSpace c \<longleftrightarrow>
     c = 0x09 \<or> c = 0x0A \<or> c = 0x0B \<or> c = 0x0C \<or> c = 0x0D \<or> c = 0x20 \<or> c = 0xA0 \<or>
     c = 0x1680 \<or> (0x2000 \<le> c \<and> c \<le> 0x200A) \<or> c = 0x2028 \<or> c = 0x2029 \<or>
     c = 0x202F \<or> c = 0x205F \<or> c = 0x3000 \<or> c = 0xFEFF"

definition isAsciiLetter :: "16 word \<Rightarrow> bool" where
  "isAsciiLetter c \<longleftrightarrow> (0x41 \<le> c \<and> c \<le> 0x5A) \<or> (0x61 \<le> c \<and> c \<le> 0x7A)"

definition trim :: "jsstring \<Rightarrow> jsstring" where
  "trim s = rev (dropWhile isWhiteSpace (rev (dropWhile isWhiteSpace s)))"

text \<open>\<open>/^[a-zA-Z\s]*$/.test(s)\<close>: every code unit of \<open>s\<close> is a letter or white space.\<close>

definition lettersAndSpaces :: "jsstring \<Rightarrow> bool" where
  "lettersAndSpaces s = list_all (\<lambda>c. isAsciiLetter c \<or> isWhiteSpace c) s"

text \<open>\<open>String.prototype.includes\<close>: the needle occurs as a contiguous run.\<close>

fun js_includes :: "jsstring \<Rightarrow> jsstring \<Rightarrow> bool" where
  "js_includes [] needle = (needle = [])"
| "js_includes (c # cs) needle =
     (take (length needle) (c # cs) = needle \<or> js_includes cs needle)"

section \<open>Component state\<close>

record js_file =
  file_name :: jsstring
  file_type :: jsstring
  file_size :: nat

record form_data =
  name :: jsstring
  age :: jsstring
  file' :: "js_file option"

datatype error_key = NameKey | AgeKey | FileKey

record dashboard =
  formData :: form_data
  errors :: "error_key \<rightharpoonup> jsstring"
  isSubmitting :: bool
  submitMessage :: jsval
  messageType :: jsstring
  isDragging :: bool

definition initial :: dashboard where
  "initial = \<lparr> formData = \<lparr> name = [], age = [], file' = None \<rparr>, errors = Map.empty,
     isSubmitting = False, submitMessage = Str [], messageType = [], isDragging = False \<rparr>"

section \<open>validateForm\<close>

text \<open>
  \<open>formData.age < 0\<close> compares the age text with a number, so the text goes through the
  runtime's string-to-number coercion first. The coercion belongs to the language, not to
  the component: \<open>validateForm\<close> takes it as the parameter \<open>toNumber\<close>.
\<close>

definition validateForm :: "(jsstring \<Rightarrow> jsnum) \<Rightarrow> dashboard \<Rightarrow> bool \<times> dashboard" where
  "validateForm toNumber st =
     (let fd = formData st;
          e0 = Map.empty;
          e1 = (if trim (name fd) = [] then e0(NameKey \<mapsto> lit ''Name is required'')
                else if length (name fd) < 2
                  then e0(NameKey \<mapsto> lit ''Name must be at least 2 characters'')
                else if \<not> lettersAndSpaces (name fd)
                  then e0(NameKey \<mapsto> lit ''Name should only contain letters'')
                else e0);
          e2 = (if age fd = [] then e1(AgeKey \<mapsto> lit ''Age is required'')
                else if js_lt (toNumber (age fd)) (Finite 0) \<or> js_gt (toNumber (age fd)) (Finite 150)
                  then e1(AgeKey \<mapsto> lit ''Age must be between 0 and 150'')
                else e1)
      in (dom e2 = {}, st\<lparr>errors := e2\<rparr>))"

section \<open>handleInputChange\<close>

text \<open>
  Two inputs call \<open>handleInputChange\<close>: the one named \<open>name\<close> and the one named
  \<open>age\<close>. \<open>errors[name]\<close> is truthy when the key holds a non-empty message.
\<close>

datatype input_field = NameInput | AgeInput

fun field_key :: "input_field \<Rightarrow> error_key" where
  "field_key NameInput = NameKey"
| "field_key AgeInput = AgeKey"

definition has_error :: "(error_key \<rightharpoonup> jsstring) \<Rightarrow> error_key \<Rightarrow> bool" where
  "has_error es k = (case es k of None \<Rightarrow> False | Some m \<Rightarrow> m \<noteq> [])"

definition handleInputChange :: "input_field \<Rightarrow> jsstring \<Rightarrow> dashboard \<Rightarrow> dashboard" where
  "handleInputChange k v st =
     (let st1 = st\<lparr>formData :=
                 (case k of NameInput \<Rightarrow> (formData st)\<lparr>name := v\<rparr>
                          | AgeInput \<Rightarrow> (formData st)\<lparr>age := v\<rparr>)\<rparr>
      in if has_error (errors st) (field_key k)
         then st1\<lparr>errors := (errors st1)(field_key k \<mapsto> [])\<rparr>
         else st1)"

section \<open>Drag and drop, handleFileSelection\<close>

definition handleDragOver :: "dashboard \<Rightarrow> dashboard" where
  "handleDragOver st = st\<lparr>isDragging := True\<rparr>"

definition handleDragLeave :: "dashboard \<Rightarrow> dashboard" where
  "handleDragLeave st = st\<lparr>isDragging := False\<rparr>"

definition allowedTypes :: "jsstring list" where
  "allowedTypes = [lit ''application/pdf'', lit ''image/jpeg'', lit ''image/png'']"

definition maxSize :: nat where
  "maxSize = 5 * 1024 * 1024"

definition handleFileSelection :: "js_file \<Rightarrow> dashboard \<Rightarrow> dashboard" where
  "handleFileSelection f st =
     (if \<not> List.member allowedTypes (file_type f)
        then st\<lparr>errors := (errors st)(FileKey \<mapsto> lit ''Only PDF, JPEG, and PNG files are allowed'')\<rparr>
      else if file_size f > maxSize
        then st\<lparr>errors := (errors st)(FileKey \<mapsto> lit ''File size should be less than 5MB'')\<rparr>
      else st\<lparr>formData := (formData st)\<lparr>file' := Some f\<rparr>,
              errors := (errors st)(FileKey \<mapsto> [])\<rparr>)"

text \<open>\<open>handleDrop\<close> and \<open>handleFileChange\<close> pass on the first file of the event, if any.\<close>

definition handleDrop :: "js_file list \<Rightarrow> dashboard \<Rightarrow> dashboard" where
  "handleDrop files st =
     (case files of [] \<Rightarrow> st\<lparr>isDragging := False\<rparr>
                  | f # _ \<Rightarrow> handleFileSelection f (st\<lparr>isDragging := False\<rparr>))"

definition handleFileChange :: "js_file list \<Rightarrow> dashboard \<Rightarrow> dashboard" where
  "handleFileChange files st = (case files of [] \<Rightarrow> st | f # _ \<Rightarrow> handleFileSelection f st)"

section \<open>handleSubmit\<close>

text \<open>
  What \<open>axios.post\<close> settles with. A fulfilled promise carries the response of a 2xx
  status; a rejected one carries an error with its \<open>code\<close>, its \<open>message\<close> and, when
  the server answered, the \<open>response\<close>. Of a response the handler reads \<open>status\<close>,
  \<open>data.message\<close> and \<open>data.error\<close>. The parsed body is an object, as the JSON
  replies of the backend are; a member it lacks is \<open>Undefined\<close>.
\<close>

record http_response =
  resp_status :: nat
  resp_data_message :: jsval
  resp_data_error :: jsval

record axios_error =
  err_code :: jsval
  err_response :: "http_response option"
  err_message :: jsstring

datatype axios_result = Fulfilled http_response | Rejected axios_error

text \<open>The \<open>catch\<close> block: lines 197 to 206 of the component.\<close>

definition errorMessage :: "axios_error \<Rightarrow> jsval" where
  "errorMessage e =
     (let m0 = js_or (js_or (case err_response e of None \<Rightarrow> Undefined
                                                 | Some r \<Rightarrow> resp_data_error r)
                            (Str (err_message e)))
                     (Str (lit ''Submission error''))
      in if err_code e = Str (lit ''ECONNABORTED'')
           then Str (lit ''Request timed out. Please try again.'')
         else if (case err_response e of None \<Rightarrow> False | Some r \<Rightarrow> resp_status r = 413)
           then Str (lit ''File is too large. Maximum size is 5MB.'')
         else if js_includes (err_message e) (lit ''Network Error'')
           then Str (lit ''Network error. Please check your connection.'')
         else m0)"

text \<open>
  The handler up to the \<open>await\<close>: either validation fails and nothing is sent, or the
  request goes out with the name, the age and the file of the form.
\<close>

datatype submit_start = NotSent dashboard | Sent dashboard form_data

definition handleSubmit_begin :: "(jsstring \<Rightarrow> jsnum) \<Rightarrow> dashboard \<Rightarrow> submit_start" where
  "handleSubmit_begin toNumber st =
     (case validateForm toNumber st of
        (False, st1) \<Rightarrow>
          NotSent (st1\<lparr>messageType := lit ''error'',
                       submitMessage := Str (lit ''Please fix the errors before submitting.'')\<rparr>)
      | (True, st1) \<Rightarrow>
          Sent (st1\<lparr>isSubmitting := True, submitMessage := Str []\<rparr>) (formData st))"

text \<open>
  The handler after the \<open>await\<close>. Its state setters act on the state of that moment,
  \<open>cur\<close>; the \<open>messageType\<close> that \<open>finally\<close> reads is the constant of the render the
  handler was created in, \<open>snap\<close>, which no setter changes. The second component lists
  the delays, in milliseconds, of the timers it starts; each runs \<open>clearSubmitMessage\<close>.
\<close>

definition handleSubmit_settle ::
    "dashboard \<Rightarrow> axios_result \<Rightarrow> dashboard \<Rightarrow> dashboard \<times> nat list" where
  "handleSubmit_settle snap res cur =
     (let cur1 = (case res of
                    Fulfilled r \<Rightarrow>
                      cur\<lparr>messageType := lit ''success'',
                          submitMessage := resp_data_message r,
                          formData := \<lparr> name = [], age = [], file' = None \<rparr>\<rparr>
                  | Rejected e \<Rightarrow>
                      cur\<lparr>messageType := lit ''error'', submitMessage := errorMessage e\<rparr>);
          cur2 = cur1\<lparr>isSubmitting := False\<rparr>
      in (cur2, if messageType snap = lit ''success'' then [5000] else []))"

definition clearSubmitMessage :: "dashboard \<Rightarrow> dashboard" where
  "clearSubmitMessage st = st\<lparr>submitMessage := Str []\<rparr>"

text \<open>
  One whole call of \<open>handleSubmit\<close> with no other event in between; \<open>post\<close> is what the
  network answers to a request.
\<close>

record submit_run =
  final :: dashboard
  requests :: "form_data list"
  timers :: "nat list"

definition handleSubmit ::
    "(jsstring \<Rightarrow> jsnum) \<Rightarrow> (form_data \<Rightarrow> axios_result) \<Rightarrow> dashboard \<Rightarrow> submit_run" where
  "handleSubmit toNumber post st =
     (case handleSubmit_begin toNumber st of
        NotSent st1 \<Rightarrow> \<lparr> final = st1, requests = [], timers = [] \<rparr>
      | Sent st1 payload \<Rightarrow>
          (case handleSubmit_settle st (post payload) st1 of
             (st2, ts) \<Rightarrow> \<lparr> final = st2, requests = [payload], timers = ts \<rparr>))"

text \<open>
  A coercion to run the component on concrete inputs: the empty text is 0 and a decimal
  integer literal with an optional minus sign has its value, as in the runtime's coercion
  (which rounds a literal beyond \<open>2 ^ 53\<close> to the nearest double; that compares with 0
  and 150 as the exact value does). Every other text is \<open>NaN\<close> here, also one with a
  fraction or an exponent, whose value the runtime would give: the coercion is applied to
  integer literals only.
\<close>

definition isDigit :: "16 word \<Rightarrow> bool" where
  "isDigit c \<longleftrightarrow> 0x30 \<le> c \<and> c \<le> 0x39"

fun digitsValue :: "nat \<Rightarrow> jsstring \<Rightarrow> nat" where
  "digitsValue acc [] = acc"
| "digitsValue acc (c # cs) = digitsValue (10 * acc + (unat c - 48)) cs"

definition integerLiteralToNumber :: "jsstring \<Rightarrow> jsnum" where
  "integerLiteralToNumber s =
     (case s of
        [] \<Rightarrow> Finite 0
      | c # cs \<Rightarrow>
          if c = 0x2D \<and> cs \<noteq> [] \<and> list_all isDigit cs
            then Finite (- of_nat (digitsValue 0 cs))
          else if list_all isDigit s then Finite (of_nat (digitsValue 0 s))
          else NaN)"

section \<open>The component as a transition system\<close>

text \<open>
  The events of one form session. \<open>pending\<close> holds, for each request that is out, the
  state of the render its handler was created in; \<open>clears\<close> counts the timers started and
  not yet fired. The submit button is \<open>disabled={isSubmitting}\<close>, so a submit event
  arrives only while \<open>isSubmitting\<close> is false.
\<close>

record system =
  ui :: dashboard
  pending :: "dashboard list"
  clears :: nat

inductive step :: "(jsstring \<Rightarrow> jsnum) \<Rightarrow> system \<Rightarrow> system \<Rightarrow> bool"
  for toNumber :: "jsstring \<Rightarrow> jsnum" where
  input_change: "step toNumber s (s\<lparr>ui := handleInputChange k v (ui s)\<rparr>)"
| drag_over: "step toNumber s (s\<lparr>ui := handleDragOver (ui s)\<rparr>)"
| drag_leave: "step toNumber s (s\<lparr>ui := handleDragLeave (ui s)\<rparr>)"
| drop: "step toNumber s (s\<lparr>ui := handleDrop files (ui s)\<rparr>)"
| file_change: "step toNumber s (s\<lparr>ui := handleFileChange files (ui s)\<rparr>)"
| submit_invalid:
    "\<not> isSubmitting (ui s) \<Longrightarrow> handleSubmit_begin toNumber (ui s) = NotSent st1 \<Longrightarrow>
     step toNumber s (s\<lparr>ui := st1\<rparr>)"
| submit_sent:
    "\<not> isSubmitting (ui s) \<Longrightarrow> handleSubmit_begin toNumber (ui s) = Sent st1 payload \<Longrightarrow>
     step toNumber s (s\<lparr>ui := st1, pending := pending s @ [ui s]\<rparr>)"
| settle:
    "pending s = snap # rest \<Longrightarrow> handleSubmit_settle snap res (ui s) = (st2, ts) \<Longrightarrow>
     step toNumber s (s\<lparr>ui := st2, pending := rest, clears := clears s + length ts\<rparr>)"
| timer_fires:
    "0 < clears s \<Longrightarrow>
     step toNumber s (s\<lparr>ui := clearSubmitMessage (ui s), clears := clears s - 1\<rparr>)"

inductive reachable :: "(jsstring \<Rightarrow> jsnum) \<Rightarrow> system \<Rightarrow> bool"
  for toNumber :: "jsstring \<Rightarrow> jsnum" where
  start: "reachable toNumber \<lparr> ui = initial, pending = [], clears = 0 \<rparr>"
| later: "reachable toNumber s \<Longrightarrow> step toNumber s s' \<Longrightarrow> reachable toNumber s'"

section \<open>Observations and sample inputs\<close>

text \<open>The message \<open>validateForm\<close> leaves under a key of \<open>errors\<close>, if any.\<close>

abbreviation nameError :: "(jsstring \<Rightarrow> jsnum) \<Rightarrow> dashboard \<Rightarrow> jsstring option" where
  "nameError toNumber st \<equiv> errors (snd (validateForm toNumber st)) NameKey"

abbreviation ageError :: "(jsstring \<Rightarrow> jsnum) \<Rightarrow> dashboard \<Rightarrow> jsstring option" where
  "ageError toNumber st \<equiv> errors (snd (validateForm toNumber st)) AgeKey"

text \<open>What the \<open>catch\<close> block tests of an error.\<close>

definition timedOut :: "axios_error \<Rightarrow> bool" where
  "timedOut e \<longleftrightarrow> err_code e = Str (lit ''ECONNABORTED'')"

definition hasStatus :: "axios_error \<Rightarrow> nat \<Rightarrow> bool" where
  "hasStatus e n = (case err_response e of None \<Rightarrow> False | Some r \<Rightarrow> resp_status r = n)"

definition networkFailed :: "axios_error \<Rightarrow> bool" where
  "networkFailed e \<longleftrightarrow> js_includes (err_message e) (lit ''Network Error'')"

definition errorField :: "axios_error \<Rightarrow> jsval" where
  "errorField e = (case err_response e of None \<Rightarrow> Undefined | Some r \<Rightarrow> resp_data_error r)"

text \<open>The form after the user has typed a name and an age into the empty form.\<close>

definition form_with :: "jsstring \<Rightarrow> jsstring \<Rightarrow> dashboard" where
  "form_with n a = handleInputChange AgeInput a (handleInputChange NameInput n initial)"

definition text_file :: js_file where
  "text_file = \<lparr> file_name = lit ''notes.txt'', file_type = lit ''text/plain'', file_size = 1024 \<rparr>"

definition huge_text_file :: js_file where
  "huge_text_file =
     \<lparr> file_name = lit ''dump.txt'', file_type = lit ''text/plain'', file_size = 6000000 \<rparr>"

definition huge_pdf :: js_file where
  "huge_pdf =
     \<lparr> file_name = lit ''scan.pdf'', file_type = lit ''application/pdf'', file_size = 5242881 \<rparr>"

definition full_pdf :: js_file where
  "full_pdf =
     \<lparr> file_name = lit ''record.pdf'', file_type = lit ''application/pdf'', file_size = 5242880 \<rparr>"

definition with_pdf :: dashboard where
  "with_pdf = handleFileSelection full_pdf initial"

definition server_ok :: "form_data \<Rightarrow> axios_result" where
  "server_ok payload = Fulfilled \<lparr> resp_status = 200,
     resp_data_message = Str (lit ''Form submitted successfully''), resp_data_error = Undefined \<rparr>"

definition timeout_error :: axios_error where
  "timeout_error = \<lparr> err_code = Str (lit ''ECONNABORTED''), err_response = None,
     err_message = lit ''timeout of 15000ms exceeded'' \<rparr>"

definition too_large_error :: axios_error where
  "too_large_error = \<lparr> err_code = Str (lit ''ERR_BAD_REQUEST''),
     err_response = Some \<lparr> resp_status = 413, resp_data_message = Undefined,
       resp_data_error = Str (lit ''Payload too large'') \<rparr>,
     err_message = lit ''Request failed with status code 413'' \<rparr>"

definition network_error :: axios_error where
  "network_error = \<lparr> err_code = Str (lit ''ERR_NETWORK''), err_response = None,
     err_message = lit ''Network Error'' \<rparr>"

definition bad_request_error :: axios_error where
  "bad_request_error = \<lparr> err_code = Str (lit ''ERR_BAD_REQUEST''),
     err_response = Some \<lparr> resp_status = 400, resp_data_message = Undefined,
       resp_data_error = Str (lit ''Age must be a number'') \<rparr>,
     err_message = lit ''Request failed with status code 400'' \<rparr>"

definition server_error :: axios_error where
  "server_error = \<lparr> err_code = Str (lit ''ERR_BAD_RESPONSE''),
     err_response = Some \<lparr> resp_status = 500, resp_data_message = Undefined,
       resp_data_error = Undefined \<rparr>,
     err_message = lit ''Request failed with status code 500'' \<rparr>"

definition silent_error :: axios_error where
  "silent_error = \<lparr> err_code = Undefined, err_response = None, err_message = [] \<rparr>"

definition empty_field_error :: axios_error where
  "empty_field_error = \<lparr> err_code = Str (lit ''ERR_BAD_REQUEST''),
     err_response = Some \<lparr> resp_status = 400, resp_data_message = Undefined,
       resp_data_error = Str [] \<rparr>,
     err_message = lit ''Request failed with status code 400'' \<rparr>"

definition server_times_out :: "form_data \<Rightarrow> axios_result" where
  "server_times_out payload = Rejected timeout_error"

text \<open>
  The name Jose written with an acute accent on its last letter: the code units of J, o, s
  and of the letter e with acute (U+00E9).
\<close>

definition accented_name :: jsstring where
  "accented_name = [0x4A, 0x6F, 0x73, 0xE9]"

text \<open>Sample states: a filled form, with and without a stored or a refused file.\<close>

definition jane :: dashboard where
  "jane = form_with (lit ''Jane Doe'') (lit ''34'')"

definition jane_with_pdf :: dashboard where
  "jane_with_pdf = handleFileSelection full_pdf jane"

definition rejected_upload :: dashboard where
  "rejected_upload = handleFileSelection text_file jane"

definition session_start :: system where
  "session_start = \<lparr> ui = initial, pending = [], clears = 0 \<rparr>"

definition awaiting_reply :: system where
  "awaiting_reply =
     \<lparr> ui = (snd (validateForm integerLiteralToNumber jane))\<lparr>isSubmitting := True,
              submitMessage := Str []\<rparr>,
       pending = [jane], clears = 0 \<rparr>"

section \<open>Facts about the helpers and the sample inputs\<close>

lemma allowedTypes_set:
  "set allowedTypes = {lit ''application/pdf'', lit ''image/jpeg'', lit ''image/png''}"
  by (simp add: allowedTypes_def)

lemma maxSize_value: "maxSize = 5242880"
  by (simp add: maxSize_def)

lemma with_pdf_file: "file' (formData with_pdf) = Some full_pdf"
  by (simp add: with_pdf_def handleFileSelection_def allowedTypes_set maxSize_value
        full_pdf_def initial_def)

lemma form_with_formData: "formData (form_with n a) = \<lparr> name = n, age = a, file' = None \<rparr>"
  by (simp add: form_with_def handleInputChange_def initial_def has_error_def)

lemma number_of_literals:
  "integerLiteralToNumber (lit ''-1'') = Finite (- 1)"
  "integerLiteralToNumber (lit ''0'') = Finite 0"
  "integerLiteralToNumber (lit ''34'') = Finite 34"
  "integerLiteralToNumber (lit ''150'') = Finite 150"
  "integerLiteralToNumber (lit ''151'') = Finite 151"
  by (simp_all add: integerLiteralToNumber_def lit_def isDigit_def)

text \<open>\<open>trim\<close> leaves nothing exactly of a text that is all white space.\<close>

lemma trim_empty_iff: "trim s = [] \<longleftrightarrow> list_all isWhiteSpace s"
proof -
  have "trim s = [] \<longleftrightarrow> (\<forall>c \<in> set (dropWhile isWhiteSpace s). isWhiteSpace c)"
    by (simp add: trim_def dropWhile_eq_Nil_conv)
  also have "\<dots> \<longleftrightarrow> dropWhile isWhiteSpace s = []"
  proof
    assume all: "\<forall>c \<in> set (dropWhile isWhiteSpace s). isWhiteSpace c"
    show "dropWhile isWhiteSpace s = []"
    proof (rule ccontr)
      assume ne: "dropWhile isWhiteSpace s \<noteq> []"
      then have "\<not> isWhiteSpace (hd (dropWhile isWhiteSpace s))"
        by (rule hd_dropWhile)
      moreover from ne have "hd (dropWhile isWhiteSpace s) \<in> set (dropWhile isWhiteSpace s)"
        by simp
      ultimately show False using all by blast
    qed
  next
    assume none: "dropWhile isWhiteSpace s = []"
    show "\<forall>c \<in> set (dropWhile isWhiteSpace s). isWhiteSpace c"
      unfolding none by simp
  qed
  also have "\<dots> \<longleftrightarrow> list_all isWhiteSpace s"
    by (simp add: dropWhile_eq_Nil_conv list_all_iff)
  finally show ?thesis .
qed

lemma nameError_cases:
  "nameError toNumber st =
     (if trim (name (formData st)) = [] then Some (lit ''Name is required'')
      else if length (name (formData st)) < 2
        then Some (lit ''Name must be at least 2 characters'')
      else if \<not> lettersAndSpaces (name (formData st))
        then Some (lit ''Name should only contain letters'')
      else None)"
  by (simp add: validateForm_def Let_def)

lemma ageError_cases:
  "ageError toNumber st =
     (if age (formData st) = [] then Some (lit ''Age is required'')
      else if js_lt (toNumber (age (formData st))) (Finite 0) \<or>
              js_gt (toNumber (age (formData st))) (Finite 150)
        then Some (lit ''Age must be between 0 and 150'')
      else None)"
  by (simp add: validateForm_def Let_def)

lemma fileError_after_validateForm: "errors (snd (validateForm toNumber st)) FileKey = None"
  by (simp add: validateForm_def Let_def)

lemma validateForm_fst:
  "fst (validateForm toNumber st) \<longleftrightarrow>
     nameError toNumber st = None \<and> ageError toNumber st = None"
  by (simp add: validateForm_def Let_def)

lemma validateForm_formData: "formData (snd (validateForm toNumber st)) = formData st"
  by (simp add: validateForm_def Let_def)

lemma validateForm_ignores_errors:
  "fst (validateForm toNumber (st\<lparr>errors := es\<rparr>)) = fst (validateForm toNumber st)"
  by (simp add: validateForm_def Let_def)

lemma handleSubmit_begin_invalid:
  "\<not> fst (validateForm toNumber st) \<Longrightarrow>
   handleSubmit_begin toNumber st =
     NotSent ((snd (validateForm toNumber st))\<lparr>messageType := lit ''error'',
       submitMessage := Str (lit ''Please fix the errors before submitting.'')\<rparr>)"
  by (cases "validateForm toNumber st") (simp add: handleSubmit_begin_def)

lemma handleSubmit_begin_valid:
  "fst (validateForm toNumber st) \<Longrightarrow>
   handleSubmit_begin toNumber st =
     Sent ((snd (validateForm toNumber st))\<lparr>isSubmitting := True, submitMessage := Str []\<rparr>)
       (formData st)"
  by (cases "validateForm toNumber st") (simp add: handleSubmit_begin_def)

lemma errorMessage_cases:
  "errorMessage e =
     (if timedOut e then Str (lit ''Request timed out. Please try again.'')
      else if hasStatus e 413 then Str (lit ''File is too large. Maximum size is 5MB.'')
      else if networkFailed e then Str (lit ''Network error. Please check your connection.'')
      else if truthy (errorField e) then errorField e
      else if err_message e \<noteq> [] then Str (err_message e)
      else Str (lit ''Submission error''))"
  by (simp add: errorMessage_def timedOut_def hasStatus_def networkFailed_def errorField_def
        js_or_def Let_def)

lemma sample_error_tests:
  "timedOut timeout_error"
  "\<not> timedOut too_large_error" "hasStatus too_large_error 413"
  "\<not> timedOut network_error" "\<not> hasStatus network_error 413" "networkFailed network_error"
  "\<not> timedOut bad_request_error" "\<not> hasStatus bad_request_error 413"
  "\<not> networkFailed bad_request_error"
  "errorField bad_request_error = Str (lit ''Age must be a number'')"
  "\<not> timedOut server_error" "\<not> hasStatus server_error 413"
  "\<not> networkFailed server_error" "errorField server_error = Undefined"
  "\<not> timedOut silent_error" "\<not> hasStatus silent_error 413"
  "\<not> networkFailed silent_error" "errorField silent_error = Undefined"
  "\<not> timedOut empty_field_error" "\<not> hasStatus empty_field_error 413"
  "\<not> networkFailed empty_field_error" "errorField empty_field_error = Str []"
  by (simp_all add: timedOut_def hasStatus_def networkFailed_def errorField_def lit_def
        timeout_error_def too_large_error_def network_error_def bad_request_error_def
        server_error_def silent_error_def empty_field_error_def)

section \<open>File selection\<close>

text \<open>
  Claim C7. A candidate file whose type is none of \<open>application/pdf\<close>, \<open>image/jpeg\<close> and
  \<open>image/png\<close> is rejected: \<open>errors.file\<close> becomes "Only PDF, JPEG, and PNG files are
  allowed" and the stored file is the one from before the call.
\<close>

theorem handleFileSelection_rejects_type:
  "file_type f \<notin> {lit ''application/pdf'', lit ''image/jpeg'', lit ''image/png''} \<Longrightarrow>
   errors (handleFileSelection f st) FileKey =
     Some (lit ''Only PDF, JPEG, and PNG files are allowed'') \<and>
   file' (formData (handleFileSelection f st)) = file' (formData st)"
  by (simp add: handleFileSelection_def allowedTypes_set)

theorem handleFileSelection_rejects_type_witness:
  "file_type text_file \<notin> {lit ''application/pdf'', lit ''image/jpeg'', lit ''image/png''} \<and>
   errors (handleFileSelection text_file with_pdf) FileKey =
     Some (lit ''Only PDF, JPEG, and PNG files are allowed'') \<and>
   file' (formData (handleFileSelection text_file with_pdf)) = Some full_pdf"
proof -
  have h: "file_type text_file \<notin> {lit ''application/pdf'', lit ''image/jpeg'', lit ''image/png''}"
    by (simp add: text_file_def lit_def)
  from handleFileSelection_rejects_type [OF h, of with_pdf] h show ?thesis
    by (simp add: with_pdf_file)
qed

text \<open>
  Claim C2, as stated, fails: the type is tested first, so a file over 5242880 bytes whose
  type is not allowed gets the message of the type rule, not the one of the size rule.
\<close>

theorem size_rule_ignores_type_counterexample:
  "file_size huge_text_file > 5242880 \<and>
   errors (handleFileSelection huge_text_file initial) FileKey \<noteq>
     Some (lit ''File size should be less than 5MB'')"
  by (simp add: huge_text_file_def handleFileSelection_def allowedTypes_set lit_def)

text \<open>
  Claim C2, amended. A candidate file of an allowed type with more than 5242880 bytes is
  rejected: \<open>errors.file\<close> becomes "File size should be less than 5MB" and the stored file is
  unchanged. A candidate of at most 5242880 bytes is not rejected by the size rule: it never
  gets that message, and when its type is allowed it is stored and \<open>errors.file\<close> is cleared.
\<close>

theorem handleFileSelection_size_rule:
  "(file_type f \<in> {lit ''application/pdf'', lit ''image/jpeg'', lit ''image/png''} \<and>
    file_size f > 5242880 \<longrightarrow>
      errors (handleFileSelection f st) FileKey = Some (lit ''File size should be less than 5MB'') \<and>
      file' (formData (handleFileSelection f st)) = file' (formData st)) \<and>
   (file_size f \<le> 5242880 \<longrightarrow>
      errors (handleFileSelection f st) FileKey \<noteq> Some (lit ''File size should be less than 5MB'')) \<and>
   (file_type f \<in> {lit ''application/pdf'', lit ''image/jpeg'', lit ''image/png''} \<and>
    file_size f \<le> 5242880 \<longrightarrow>
      errors (handleFileSelection f st) FileKey = Some [] \<and>
      file' (formData (handleFileSelection f st)) = Some f)"
proof -
  have differ: "lit ''Only PDF, JPEG, and PNG files are allowed'' \<noteq>
      lit ''File size should be less than 5MB''"
    by (simp add: lit_def)
  have nonempty: "lit ''File size should be less than 5MB'' \<noteq> []"
    by (simp add: lit_def)
  show ?thesis
    using differ nonempty
    by (auto simp add: handleFileSelection_def allowedTypes_set maxSize_value)
qed

theorem handleFileSelection_size_rule_witness:
  "file_type huge_pdf \<in> {lit ''application/pdf'', lit ''image/jpeg'', lit ''image/png''} \<and>
   file_size huge_pdf > 5242880 \<and>
   errors (handleFileSelection huge_pdf with_pdf) FileKey =
     Some (lit ''File size should be less than 5MB'') \<and>
   file' (formData (handleFileSelection huge_pdf with_pdf)) = Some full_pdf \<and>
   file_type full_pdf \<in> {lit ''application/pdf'', lit ''image/jpeg'', lit ''image/png''} \<and>
   file_size full_pdf \<le> 5242880 \<and>
   errors (handleFileSelection full_pdf initial) FileKey \<noteq>
     Some (lit ''File size should be less than 5MB'') \<and>
   errors (handleFileSelection full_pdf initial) FileKey = Some [] \<and>
   file' (formData (handleFileSelection full_pdf initial)) = Some full_pdf"
proof -
  have nonempty: "lit ''File size should be less than 5MB'' \<noteq> []"
    by (simp add: lit_def)
  have allowed: "lit ''application/pdf'' \<in>
      {lit ''application/pdf'', lit ''image/jpeg'', lit ''image/png''}"
    by simp
  from handleFileSelection_size_rule [of huge_pdf with_pdf]
    handleFileSelection_size_rule [of full_pdf initial] nonempty allowed
  show ?thesis
    by (simp add: huge_pdf_def full_pdf_def with_pdf_file)
qed

section \<open>validateForm: the name and the age\<close>

text \<open>
  Claim C3, as stated, fails in two places. The second rule tests the length of the name
  as typed, not of the trimmed name: the name "a " is not blank and its trimmed length is
  1, yet \<open>validateForm\<close> reports no name error for it. And the letters of the third rule
  are the class \<open>[a-zA-Z]\<close> that the regular expression spells out: the accented name
  consists of four letters, has no white space and is not blank, yet its last letter is
  outside that class and \<open>validateForm\<close> reports "Name should only contain letters".
\<close>

theorem name_rules_counterexample:
  "\<not> list_all isWhiteSpace (lit ''a '') \<and> length (trim (lit ''a '')) < 2 \<and>
   nameError integerLiteralToNumber (form_with (lit ''a '') (lit ''34'')) \<noteq>
     Some (lit ''Name must be at least 2 characters'') \<and>
   accented_name = lit ''Jos'' @ [0xE9] \<and>
   2 \<le> length accented_name \<and> trim accented_name = accented_name \<and>
   nameError integerLiteralToNumber (form_with accented_name (lit ''34'')) =
     Some (lit ''Name should only contain letters'')"
proof -
  have short: "\<not> list_all isWhiteSpace (lit ''a '') \<and> length (trim (lit ''a '')) < 2 \<and>
      nameError integerLiteralToNumber (form_with (lit ''a '') (lit ''34'')) \<noteq>
        Some (lit ''Name must be at least 2 characters'')"
    by (simp add: nameError_cases form_with_formData lit_def trim_def isWhiteSpace_def
          lettersAndSpaces_def isAsciiLetter_def)
  have spelled: "accented_name = lit ''Jos'' @ [0xE9]"
    by (simp add: accented_name_def lit_def)
  have shape: "2 \<le> length accented_name \<and> trim accented_name = accented_name"
    by (simp add: accented_name_def trim_def isWhiteSpace_def)
  have refused: "nameError integerLiteralToNumber (form_with accented_name (lit ''34'')) =
      Some (lit ''Name should only contain letters'')"
    using shape
    by (simp add: nameError_cases form_with_formData)
       (simp add: accented_name_def lettersAndSpaces_def isWhiteSpace_def isAsciiLetter_def)
  from short spelled shape refused show ?thesis
    by simp
qed

text \<open>
  Claim C3, amended. \<open>validateForm\<close> assigns the name error by the ordered rules: a name
  that is empty or all white space gets "Name is required"; else a name of length below 2
  (the length as typed, untrimmed) gets "Name must be at least 2 characters"; else a name
  with a character that is neither one of the letters a-z, A-Z nor white space gets "Name
  should only contain letters"; and a name made of the letters a-z, A-Z and white space
  only, of length at least 2 and not empty after trimming, gets no name error.
\<close>

theorem validateForm_name_rules:
  "(list_all isWhiteSpace (name (formData st)) \<longrightarrow>
      nameError toNumber st = Some (lit ''Name is required'')) \<and>
   (\<not> list_all isWhiteSpace (name (formData st)) \<and> length (name (formData st)) < 2 \<longrightarrow>
      nameError toNumber st = Some (lit ''Name must be at least 2 characters'')) \<and>
   (\<not> list_all isWhiteSpace (name (formData st)) \<and> 2 \<le> length (name (formData st)) \<and>
    (\<exists>c \<in> set (name (formData st)). \<not> isAsciiLetter c \<and> \<not> isWhiteSpace c) \<longrightarrow>
      nameError toNumber st = Some (lit ''Name should only contain letters'')) \<and>
   (list_all (\<lambda>c. isAsciiLetter c \<or> isWhiteSpace c) (name (formData st)) \<and>
    2 \<le> length (name (formData st)) \<and> trim (name (formData st)) \<noteq> [] \<longrightarrow>
      nameError toNumber st = None)"
  by (auto simp add: nameError_cases trim_empty_iff lettersAndSpaces_def list_all_iff)

theorem validateForm_name_rules_witness:
  "list_all isWhiteSpace (lit ''  '') \<and>
   nameError integerLiteralToNumber (form_with (lit ''  '') (lit ''34'')) =
     Some (lit ''Name is required'') \<and>
   \<not> list_all isWhiteSpace (lit ''J'') \<and> length (lit ''J'') < 2 \<and>
   nameError integerLiteralToNumber (form_with (lit ''J'') (lit ''34'')) =
     Some (lit ''Name must be at least 2 characters'') \<and>
   \<not> list_all isWhiteSpace (lit ''J4ne'') \<and> 2 \<le> length (lit ''J4ne'') \<and>
   0x34 \<in> set (lit ''J4ne'') \<and> \<not> isAsciiLetter 0x34 \<and> \<not> isWhiteSpace 0x34 \<and>
   nameError integerLiteralToNumber (form_with (lit ''J4ne'') (lit ''34'')) =
     Some (lit ''Name should only contain letters'') \<and>
   list_all (\<lambda>c. isAsciiLetter c \<or> isWhiteSpace c) (lit ''Jane Doe'') \<and>
   2 \<le> length (lit ''Jane Doe'') \<and> trim (lit ''Jane Doe'') \<noteq> [] \<and>
   nameError integerLiteralToNumber (form_with (lit ''Jane Doe'') (lit ''34'')) = None"
proof -
  have blank: "list_all isWhiteSpace (lit ''  '')"
    by (simp add: lit_def isWhiteSpace_def)
  have one: "\<not> list_all isWhiteSpace (lit ''J'') \<and> length (lit ''J'') < 2"
    by (simp add: lit_def isWhiteSpace_def)
  have mixed: "\<not> list_all isWhiteSpace (lit ''J4ne'') \<and> 2 \<le> length (lit ''J4ne'') \<and>
      0x34 \<in> set (lit ''J4ne'') \<and> \<not> isAsciiLetter 0x34 \<and> \<not> isWhiteSpace 0x34"
    by (simp add: lit_def isWhiteSpace_def isAsciiLetter_def)
  have good: "list_all (\<lambda>c. isAsciiLetter c \<or> isWhiteSpace c) (lit ''Jane Doe'') \<and>
      2 \<le> length (lit ''Jane Doe'') \<and> trim (lit ''Jane Doe'') \<noteq> []"
    by (simp add: lit_def isWhiteSpace_def isAsciiLetter_def trim_def)
  have r1: "nameError integerLiteralToNumber (form_with (lit ''  '') (lit ''34'')) =
      Some (lit ''Name is required'')"
    using validateForm_name_rules [of "form_with (lit ''  '') (lit ''34'')" integerLiteralToNumber,
        THEN conjunct1] blank
    by (simp add: form_with_formData)
  have r2: "nameError integerLiteralToNumber (form_with (lit ''J'') (lit ''34'')) =
      Some (lit ''Name must be at least 2 characters'')"
    using validateForm_name_rules [of "form_with (lit ''J'') (lit ''34'')" integerLiteralToNumber,
        THEN conjunct2, THEN conjunct1] one
    by (simp add: form_with_formData)
  have r3: "nameError integerLiteralToNumber (form_with (lit ''J4ne'') (lit ''34'')) =
      Some (lit ''Name should only contain letters'')"
  proof -
    from mixed have "\<exists>c \<in> set (lit ''J4ne''). \<not> isAsciiLetter c \<and> \<not> isWhiteSpace c"
      by (intro bexI [of _ "0x34"]) simp_all
    with mixed validateForm_name_rules [of "form_with (lit ''J4ne'') (lit ''34'')"
        integerLiteralToNumber, THEN conjunct2, THEN conjunct2, THEN conjunct1]
    show ?thesis
      by (simp add: form_with_formData)
  qed
  have r4: "nameError integerLiteralToNumber (form_with (lit ''Jane Doe'') (lit ''34'')) = None"
    using validateForm_name_rules [of "form_with (lit ''Jane Doe'') (lit ''34'')"
        integerLiteralToNumber, THEN conjunct2, THEN conjunct2, THEN conjunct2] good
    by (simp add: form_with_formData)
  from blank one mixed good r1 r2 r3 r4 show ?thesis
    by simp
qed

text \<open>
  A text the coercion maps to \<open>NaN\<close> is neither below 0 nor above 150: \<open>validateForm\<close>
  reports no age error for it. An input of type \<open>number\<close> yields the empty text instead
  of such a text.
\<close>

lemma ageError_NaN:
  "age (formData st) \<noteq> [] \<Longrightarrow> toNumber (age (formData st)) = NaN \<Longrightarrow> ageError toNumber st = None"
  by (simp add: ageError_cases js_gt_def)

text \<open>An infinite value is out of range.\<close>

lemma ageError_infinite:
  "age (formData st) \<noteq> [] \<Longrightarrow>
   toNumber (age (formData st)) = NegInfinity \<or> toNumber (age (formData st)) = PosInfinity \<Longrightarrow>
   ageError toNumber st = Some (lit ''Age must be between 0 and 150'')"
  by (auto simp add: ageError_cases js_gt_def)

text \<open>
  Claim C5. \<open>validateForm\<close> assigns the age error by the rules: an empty age gets "Age is
  required"; else an age below 0 or above 150 gets "Age must be between 0 and 150". So an
  age whose value lies outside the closed range from 0 to 150, or that is empty, gets an age
  error, and an age whose value lies inside the closed range gets none. The value of the
  age text is what the coercion \<open>toNumber\<close> makes of it.
\<close>

theorem validateForm_age_rules:
  "(age (formData st) = [] \<longrightarrow> ageError toNumber st = Some (lit ''Age is required'')) \<and>
   (age (formData st) \<noteq> [] \<and>
    (js_lt (toNumber (age (formData st))) (Finite 0) \<or>
     js_gt (toNumber (age (formData st))) (Finite 150)) \<longrightarrow>
      ageError toNumber st = Some (lit ''Age must be between 0 and 150'')) \<and>
   (age (formData st) \<noteq> [] \<and> toNumber (age (formData st)) = Finite x \<and> (x < 0 \<or> 150 < x) \<longrightarrow>
      ageError toNumber st = Some (lit ''Age must be between 0 and 150'')) \<and>
   (age (formData st) \<noteq> [] \<and> toNumber (age (formData st)) = Finite x \<and> 0 \<le> x \<and> x \<le> 150 \<longrightarrow>
      ageError toNumber st = None)"
  by (auto simp add: ageError_cases js_gt_def)

theorem validateForm_age_rules_witness:
  "age (formData (form_with (lit ''Jane Doe'') [])) = [] \<and>
   ageError integerLiteralToNumber (form_with (lit ''Jane Doe'') []) =
     Some (lit ''Age is required'') \<and>
   lit ''-1'' \<noteq> [] \<and> integerLiteralToNumber (lit ''-1'') = Finite (- 1) \<and>
   js_lt (integerLiteralToNumber (lit ''-1'')) (Finite 0) \<and>
   ageError integerLiteralToNumber (form_with (lit ''Jane Doe'') (lit ''-1'')) =
     Some (lit ''Age must be between 0 and 150'') \<and>
   lit ''151'' \<noteq> [] \<and> integerLiteralToNumber (lit ''151'') = Finite 151 \<and>
   js_gt (integerLiteralToNumber (lit ''151'')) (Finite 150) \<and>
   ageError integerLiteralToNumber (form_with (lit ''Jane Doe'') (lit ''151'')) =
     Some (lit ''Age must be between 0 and 150'') \<and>
   lit ''0'' \<noteq> [] \<and> integerLiteralToNumber (lit ''0'') = Finite 0 \<and>
   ageError integerLiteralToNumber (form_with (lit ''Jane Doe'') (lit ''0'')) = None \<and>
   lit ''150'' \<noteq> [] \<and> integerLiteralToNumber (lit ''150'') = Finite 150 \<and>
   ageError integerLiteralToNumber (form_with (lit ''Jane Doe'') (lit ''150'')) = None"
proof -
  have nonempty: "lit ''-1'' \<noteq> [] \<and> lit ''151'' \<noteq> [] \<and> lit ''0'' \<noteq> [] \<and> lit ''150'' \<noteq> []"
    by (simp add: lit_def)
  show ?thesis
    using validateForm_age_rules [of "form_with (lit ''Jane Doe'') []" integerLiteralToNumber 0]
      validateForm_age_rules [of "form_with (lit ''Jane Doe'') (lit ''-1'')"
        integerLiteralToNumber "- 1"]
      validateForm_age_rules [of "form_with (lit ''Jane Doe'') (lit ''151'')"
        integerLiteralToNumber 151]
      validateForm_age_rules [of "form_with (lit ''Jane Doe'') (lit ''0'')"
        integerLiteralToNumber 0]
      validateForm_age_rules [of "form_with (lit ''Jane Doe'') (lit ''150'')"
        integerLiteralToNumber 150]
      nonempty
    by (simp add: form_with_formData number_of_literals js_gt_def)
qed

section \<open>validateForm and the start of handleSubmit\<close>

lemma jane_formData: "formData jane = \<lparr> name = lit ''Jane Doe'', age = lit ''34'', file' = None \<rparr>"
  by (simp add: jane_def form_with_formData)

lemma jane_idle: "\<not> isSubmitting jane" "messageType jane = []"
  by (simp_all add: jane_def form_with_def handleInputChange_def initial_def has_error_def)

lemma jane_valid: "fst (validateForm integerLiteralToNumber jane)"
  by (simp add: validateForm_fst nameError_cases ageError_cases jane_formData
        number_of_literals js_gt_def)
     (simp add: lit_def trim_def isWhiteSpace_def lettersAndSpaces_def isAsciiLetter_def)

lemma jane_begin:
  "handleSubmit_begin integerLiteralToNumber jane =
     Sent ((snd (validateForm integerLiteralToNumber jane))\<lparr>isSubmitting := True,
       submitMessage := Str []\<rparr>) (formData jane)"
  using jane_valid by (rule handleSubmit_begin_valid)

lemma rejected_upload_facts:
  "formData rejected_upload = \<lparr> name = lit ''Jane Doe'', age = lit ''34'', file' = None \<rparr>"
  "errors rejected_upload FileKey = Some (lit ''Only PDF, JPEG, and PNG files are allowed'')"
  by (simp_all add: rejected_upload_def handleFileSelection_def allowedTypes_set text_file_def
        jane_formData) (simp_all add: lit_def)

lemma rejected_upload_valid: "fst (validateForm integerLiteralToNumber rejected_upload)"
  by (simp add: validateForm_fst nameError_cases ageError_cases rejected_upload_facts
        number_of_literals js_gt_def)
     (simp add: lit_def trim_def isWhiteSpace_def lettersAndSpaces_def isAsciiLetter_def)

lemma jane_with_pdf_formData:
  "formData jane_with_pdf = \<lparr> name = lit ''Jane Doe'', age = lit ''34'', file' = Some full_pdf \<rparr>"
  by (simp add: jane_with_pdf_def handleFileSelection_def allowedTypes_set maxSize_value
        jane_formData) (simp add: full_pdf_def)

lemma jane_with_pdf_valid: "fst (validateForm integerLiteralToNumber jane_with_pdf)"
  by (simp add: validateForm_fst nameError_cases ageError_cases jane_with_pdf_formData
        number_of_literals js_gt_def)
     (simp add: lit_def trim_def isWhiteSpace_def lettersAndSpaces_def isAsciiLetter_def)

lemma initial_invalid: "\<not> fst (validateForm integerLiteralToNumber initial)"
  by (simp add: validateForm_fst nameError_cases initial_def trim_def)

text \<open>
  Claim C1, as stated, fails: \<open>validateForm\<close> builds the errors anew from the name and the
  age, so a message that \<open>handleFileSelection\<close> left under \<open>file\<close> does not count. After a
  text file was refused, the form with a valid name and age validates and the request
  goes out.
\<close>

theorem file_error_does_not_block_counterexample:
  "has_error (errors rejected_upload) FileKey \<and>
   fst (validateForm integerLiteralToNumber rejected_upload) \<and>
   requests (handleSubmit integerLiteralToNumber server_ok rejected_upload) =
     [\<lparr> name = lit ''Jane Doe'', age = lit ''34'', file' = None \<rparr>] \<and>
   submitMessage (final (handleSubmit integerLiteralToNumber server_ok rejected_upload)) \<noteq>
     Str (lit ''Please fix the errors before submitting.'')"
proof -
  have a: "has_error (errors rejected_upload) FileKey"
    by (simp add: has_error_def rejected_upload_facts) (simp add: lit_def)
  have b: "handleSubmit_begin integerLiteralToNumber rejected_upload =
      Sent ((snd (validateForm integerLiteralToNumber rejected_upload))\<lparr>isSubmitting := True,
        submitMessage := Str []\<rparr>) (formData rejected_upload)"
    using rejected_upload_valid by (rule handleSubmit_begin_valid)
  have c: "lit ''Form submitted successfully'' \<noteq> lit ''Please fix the errors before submitting.''"
    by (simp add: lit_def)
  show ?thesis
    using a rejected_upload_valid c
    by (simp add: handleSubmit_def b handleSubmit_settle_def server_ok_def Let_def
          rejected_upload_facts)
qed

text \<open>
  Claim C1, amended. \<open>validateForm\<close> returns true iff neither the name rules nor the age
  rules produced an error; the errors from before the call, a message under \<open>file\<close> from
  an earlier \<open>handleFileSelection\<close> included, do not count. For every state in which a
  name or an age rule fails, \<open>handleSubmit\<close> sets the message to "Please fix the errors
  before submitting." with the type "error" and sends no request.
\<close>

theorem validateForm_blocks_submit:
  "(fst (validateForm toNumber st) \<longleftrightarrow>
      nameError toNumber st = None \<and> ageError toNumber st = None) \<and>
   fst (validateForm toNumber (st\<lparr>errors := es\<rparr>)) = fst (validateForm toNumber st) \<and>
   (nameError toNumber st \<noteq> None \<or> ageError toNumber st \<noteq> None \<longrightarrow>
      submitMessage (final (handleSubmit toNumber post st)) =
        Str (lit ''Please fix the errors before submitting.'') \<and>
      messageType (final (handleSubmit toNumber post st)) = lit ''error'' \<and>
      requests (handleSubmit toNumber post st) = [])"
proof -
  have "\<not> fst (validateForm toNumber st) \<Longrightarrow>
      submitMessage (final (handleSubmit toNumber post st)) =
        Str (lit ''Please fix the errors before submitting.'') \<and>
      messageType (final (handleSubmit toNumber post st)) = lit ''error'' \<and>
      requests (handleSubmit toNumber post st) = []"
    by (simp add: handleSubmit_def handleSubmit_begin_invalid)
  then show ?thesis
    using validateForm_fst [of toNumber st] validateForm_ignores_errors [where toNumber = toNumber and st = st and es = es]
    by auto
qed

theorem validateForm_blocks_submit_witness:
  "nameError integerLiteralToNumber (form_with [] (lit ''34'')) = Some (lit ''Name is required'') \<and>
   \<not> fst (validateForm integerLiteralToNumber (form_with [] (lit ''34''))) \<and>
   submitMessage (final (handleSubmit integerLiteralToNumber server_ok (form_with [] (lit ''34'')))) =
     Str (lit ''Please fix the errors before submitting.'') \<and>
   messageType (final (handleSubmit integerLiteralToNumber server_ok (form_with [] (lit ''34'')))) =
     lit ''error'' \<and>
   requests (handleSubmit integerLiteralToNumber server_ok (form_with [] (lit ''34''))) = []"
proof -
  have bad: "nameError integerLiteralToNumber (form_with [] (lit ''34'')) =
      Some (lit ''Name is required'')"
    by (simp add: nameError_cases form_with_formData trim_def)
  with validateForm_blocks_submit [where toNumber = integerLiteralToNumber
      and st = "form_with [] (lit ''34'')" and post = server_ok]
  show ?thesis by simp
qed

section \<open>handleSubmit after the request settles\<close>

text \<open>
  Claim C4. After a fulfilled request the message is the \<open>message\<close> of the response body
  with the type "success" and the form is emptied, but no timer is started unless the
  message type was already "success" when the handler was created: \<open>finally\<close> reads the
  \<open>messageType\<close> of that render. On the first successful submission of a session the
  message therefore stays.
\<close>

theorem first_success_starts_no_timer:
  "messageType jane \<noteq> lit ''success'' \<and>
   messageType (final (handleSubmit integerLiteralToNumber server_ok jane)) = lit ''success'' \<and>
   submitMessage (final (handleSubmit integerLiteralToNumber server_ok jane)) =
     Str (lit ''Form submitted successfully'') \<and>
   formData (final (handleSubmit integerLiteralToNumber server_ok jane)) =
     \<lparr> name = [], age = [], file' = None \<rparr> \<and>
   timers (handleSubmit integerLiteralToNumber server_ok jane) = []"
proof -
  have ne: "lit ''success'' \<noteq> []"
    by (simp add: lit_def)
  then show ?thesis
    by (simp add: handleSubmit_def jane_begin handleSubmit_settle_def server_ok_def Let_def
          jane_idle)
qed

text \<open>
  Claim C6, as stated, fails: an \<open>error\<close> member of the response body that is the empty
  string is present, but \<open>||\<close> passes over it and the message of the transport error is
  shown.
\<close>

theorem empty_error_field_counterexample:
  "\<not> timedOut empty_field_error \<and> \<not> hasStatus empty_field_error 413 \<and>
   \<not> networkFailed empty_field_error \<and> errorField empty_field_error = Str [] \<and>
   errorMessage empty_field_error = Str (lit ''Request failed with status code 400'') \<and>
   errorMessage empty_field_error \<noteq> errorField empty_field_error"
proof -
  have "errorMessage empty_field_error = Str (err_message empty_field_error)"
    by (simp add: errorMessage_cases sample_error_tests) (simp add: empty_field_error_def lit_def)
  moreover have "err_message empty_field_error = lit ''Request failed with status code 400''"
    by (simp add: empty_field_error_def)
  moreover have "lit ''Request failed with status code 400'' \<noteq> []"
    by (simp add: lit_def)
  ultimately show ?thesis
    by (simp add: sample_error_tests)
qed

text \<open>
  Claim C6, amended. After a rejected request the message has the type "error" and is
  chosen in this order: (1) the error code is \<open>ECONNABORTED\<close> (the timeout): "Request timed
  out. Please try again."; (2) the response status is 413: "File is too large. Maximum
  size is 5MB."; (3) the text of the error includes "Network Error": "Network error.
  Please check your connection."; (4) the response body has a non-empty \<open>error\<close> member:
  that member; (5) otherwise the text of the transport error, or "Submission error" when
  that text is empty.
\<close>

theorem errorMessage_priority:
  "(timedOut e \<longrightarrow> errorMessage e = Str (lit ''Request timed out. Please try again.'')) \<and>
   (\<not> timedOut e \<and> hasStatus e 413 \<longrightarrow>
      errorMessage e = Str (lit ''File is too large. Maximum size is 5MB.'')) \<and>
   (\<not> timedOut e \<and> \<not> hasStatus e 413 \<and> networkFailed e \<longrightarrow>
      errorMessage e = Str (lit ''Network error. Please check your connection.'')) \<and>
   (\<not> timedOut e \<and> \<not> hasStatus e 413 \<and> \<not> networkFailed e \<and>
    errorField e = Str m \<and> m \<noteq> [] \<longrightarrow>
      errorMessage e = Str m) \<and>
   (\<not> timedOut e \<and> \<not> hasStatus e 413 \<and> \<not> networkFailed e \<and>
    (errorField e = Undefined \<or> errorField e = Str []) \<and> err_message e \<noteq> [] \<longrightarrow>
      errorMessage e = Str (err_message e)) \<and>
   (\<not> timedOut e \<and> \<not> hasStatus e 413 \<and> \<not> networkFailed e \<and>
    (errorField e = Undefined \<or> errorField e = Str []) \<and> err_message e = [] \<longrightarrow>
      errorMessage e = Str (lit ''Submission error'')) \<and>
   messageType (fst (handleSubmit_settle snap (Rejected e) cur)) = lit ''error'' \<and>
   submitMessage (fst (handleSubmit_settle snap (Rejected e) cur)) = errorMessage e"
  by (auto simp add: errorMessage_cases handleSubmit_settle_def Let_def)

theorem errorMessage_priority_witness:
  "timedOut timeout_error \<and>
   errorMessage timeout_error = Str (lit ''Request timed out. Please try again.'') \<and>
   \<not> timedOut too_large_error \<and> hasStatus too_large_error 413 \<and>
   errorMessage too_large_error = Str (lit ''File is too large. Maximum size is 5MB.'') \<and>
   \<not> timedOut network_error \<and> \<not> hasStatus network_error 413 \<and>
   networkFailed network_error \<and>
   errorMessage network_error = Str (lit ''Network error. Please check your connection.'') \<and>
   \<not> timedOut bad_request_error \<and> \<not> hasStatus bad_request_error 413 \<and>
   \<not> networkFailed bad_request_error \<and>
   errorField bad_request_error = Str (lit ''Age must be a number'') \<and>
   lit ''Age must be a number'' \<noteq> [] \<and>
   errorMessage bad_request_error = Str (lit ''Age must be a number'') \<and>
   \<not> timedOut server_error \<and> \<not> hasStatus server_error 413 \<and>
   \<not> networkFailed server_error \<and> errorField server_error = Undefined \<and>
   err_message server_error = lit ''Request failed with status code 500'' \<and>
   lit ''Request failed with status code 500'' \<noteq> [] \<and>
   errorMessage server_error = Str (lit ''Request failed with status code 500'') \<and>
   \<not> timedOut silent_error \<and> \<not> hasStatus silent_error 413 \<and>
   \<not> networkFailed silent_error \<and> errorField silent_error = Undefined \<and>
   err_message silent_error = [] \<and>
   errorMessage silent_error = Str (lit ''Submission error'')"
proof -
  have texts: "lit ''Age must be a number'' \<noteq> []"
    "err_message server_error = lit ''Request failed with status code 500''"
    "lit ''Request failed with status code 500'' \<noteq> []"
    "err_message silent_error = []"
    by (simp_all add: lit_def server_error_def silent_error_def)
  have r1: "errorMessage timeout_error = Str (lit ''Request timed out. Please try again.'')"
    using errorMessage_priority [of timeout_error, THEN conjunct1]
    by (simp add: sample_error_tests)
  have r2: "errorMessage too_large_error = Str (lit ''File is too large. Maximum size is 5MB.'')"
    using errorMessage_priority [of too_large_error, THEN conjunct2, THEN conjunct1]
    by (simp add: sample_error_tests)
  have r3: "errorMessage network_error =
      Str (lit ''Network error. Please check your connection.'')"
    using errorMessage_priority [of network_error, THEN conjunct2, THEN conjunct2, THEN conjunct1]
    by (simp add: sample_error_tests)
  have r4: "errorMessage bad_request_error = Str (lit ''Age must be a number'')"
    using errorMessage_priority [of bad_request_error "lit ''Age must be a number''",
        THEN conjunct2, THEN conjunct2, THEN conjunct2, THEN conjunct1] texts
    by (simp add: sample_error_tests)
  have r5: "errorMessage server_error = Str (lit ''Request failed with status code 500'')"
    using errorMessage_priority [of server_error,
        THEN conjunct2, THEN conjunct2, THEN conjunct2, THEN conjunct2, THEN conjunct1] texts
    by (simp add: sample_error_tests)
  have r6: "errorMessage silent_error = Str (lit ''Submission error'')"
    using errorMessage_priority [of silent_error,
        THEN conjunct2, THEN conjunct2, THEN conjunct2, THEN conjunct2, THEN conjunct2,
        THEN conjunct1] texts
    by (simp add: sample_error_tests)
  from r1 r2 r3 r4 r5 r6 texts show ?thesis
    by (simp add: sample_error_tests)
qed

text \<open>
  Whether the timer is started depends on the render the handler came from alone, not on
  how the request ended.
\<close>

lemma timer_depends_on_snapshot:
  "snd (handleSubmit_settle snap res cur) =
     (if messageType snap = lit ''success'' then [5000] else [])"
  by (simp add: handleSubmit_settle_def Let_def)

section \<open>The isSubmitting flag\<close>

lemma isSubmitting_frame:
  "isSubmitting (handleInputChange k v st) = isSubmitting st"
  "isSubmitting (handleFileSelection f st) = isSubmitting st"
  "isSubmitting (handleDrop files st) = isSubmitting st"
  "isSubmitting (handleFileChange files st) = isSubmitting st"
  "isSubmitting (handleDragOver st) = isSubmitting st"
  "isSubmitting (handleDragLeave st) = isSubmitting st"
  "isSubmitting (clearSubmitMessage st) = isSubmitting st"
  "isSubmitting (snd (validateForm toNumber st)) = isSubmitting st"
  by (simp_all add: handleInputChange_def handleFileSelection_def handleDrop_def
        handleFileChange_def handleDragOver_def handleDragLeave_def clearSubmitMessage_def
        validateForm_def Let_def split: list.split)

lemma handleSubmit_begin_NotSent:
  "handleSubmit_begin toNumber st = NotSent st1 \<Longrightarrow>
   \<not> fst (validateForm toNumber st) \<and> isSubmitting st1 = isSubmitting st \<and>
   formData st1 = formData st"
  by (cases "fst (validateForm toNumber st)")
     (auto simp add: handleSubmit_begin_valid handleSubmit_begin_invalid isSubmitting_frame
        validateForm_formData)

lemma handleSubmit_begin_Sent:
  "handleSubmit_begin toNumber st = Sent st1 payload \<Longrightarrow>
   fst (validateForm toNumber st) \<and> isSubmitting st1 \<and> payload = formData st"
  by (cases "fst (validateForm toNumber st)")
     (auto simp add: handleSubmit_begin_valid handleSubmit_begin_invalid)

lemma handleSubmit_settle_isSubmitting:
  "\<not> isSubmitting (fst (handleSubmit_settle snap res cur))"
  by (simp add: handleSubmit_settle_def Let_def)

text \<open>Every event keeps the flag in step with the requests that are out.\<close>

lemma step_keeps_invariant:
  assumes "step toNumber s s'"
    and "(isSubmitting (ui s) \<longleftrightarrow> pending s \<noteq> []) \<and> length (pending s) \<le> 1"
  shows "(isSubmitting (ui s') \<longleftrightarrow> pending s' \<noteq> []) \<and> length (pending s') \<le> 1"
  using assms
proof (induction rule: step.induct)
  case (submit_invalid s st1)
  then show ?case
    by (auto dest: handleSubmit_begin_NotSent)
next
  case (submit_sent s st1 payload)
  then show ?case
    by (auto dest: handleSubmit_begin_Sent)
next
  case (settle s snap rest res st2 ts)
  from settle.hyps(2) have "st2 = fst (handleSubmit_settle snap res (ui s))"
    by simp
  with settle show ?case
    by (simp add: handleSubmit_settle_isSubmitting)
qed (simp_all add: isSubmitting_frame)

lemma reachable_invariant:
  "reachable toNumber s \<Longrightarrow>
   (isSubmitting (ui s) \<longleftrightarrow> pending s \<noteq> []) \<and> length (pending s) \<le> 1"
proof (induction rule: reachable.induct)
  case start
  show ?case by (simp add: initial_def)
next
  case (later s s')
  from later.hyps(2) later.IH show ?case by (rule step_keeps_invariant)
qed

lemma awaiting_reply_reachable: "reachable integerLiteralToNumber awaiting_reply"
proof -
  have r0: "reachable integerLiteralToNumber session_start"
    unfolding session_start_def by (rule reachable.start)
  have "step integerLiteralToNumber session_start
      (session_start\<lparr>ui := handleInputChange NameInput (lit ''Jane Doe'') (ui session_start)\<rparr>)"
    by (rule step.input_change)
  with r0 have r1: "reachable integerLiteralToNumber
      (session_start\<lparr>ui := handleInputChange NameInput (lit ''Jane Doe'') (ui session_start)\<rparr>)"
    by (rule reachable.later)
  have "step integerLiteralToNumber
      (session_start\<lparr>ui := handleInputChange NameInput (lit ''Jane Doe'') (ui session_start)\<rparr>)
      ((session_start\<lparr>ui := handleInputChange NameInput (lit ''Jane Doe'') (ui session_start)\<rparr>)
         \<lparr>ui := handleInputChange AgeInput (lit ''34'')
            (ui (session_start\<lparr>ui :=
               handleInputChange NameInput (lit ''Jane Doe'') (ui session_start)\<rparr>))\<rparr>)"
    by (rule step.input_change)
  with r1 have "reachable integerLiteralToNumber
      ((session_start\<lparr>ui := handleInputChange NameInput (lit ''Jane Doe'') (ui session_start)\<rparr>)
         \<lparr>ui := handleInputChange AgeInput (lit ''34'')
            (ui (session_start\<lparr>ui :=
               handleInputChange NameInput (lit ''Jane Doe'') (ui session_start)\<rparr>))\<rparr>)"
    by (rule reachable.later)
  then have r2: "reachable integerLiteralToNumber \<lparr> ui = jane, pending = [], clears = 0 \<rparr>"
    by (simp add: session_start_def jane_def form_with_def)
  have "step integerLiteralToNumber \<lparr> ui = jane, pending = [], clears = 0 \<rparr>
      (\<lparr> ui = jane, pending = [], clears = 0 \<rparr>
         \<lparr>ui := (snd (validateForm integerLiteralToNumber jane))\<lparr>isSubmitting := True,
                   submitMessage := Str []\<rparr>,
          pending := pending \<lparr> ui = jane, pending = [], clears = 0 \<rparr> @
                     [ui \<lparr> ui = jane, pending = [], clears = 0 \<rparr>]\<rparr>)"
    by (rule step.submit_sent [where payload = "formData jane"])
       (simp_all add: jane_idle jane_begin)
  with r2 have "reachable integerLiteralToNumber
      (\<lparr> ui = jane, pending = [], clears = 0 \<rparr>
         \<lparr>ui := (snd (validateForm integerLiteralToNumber jane))\<lparr>isSubmitting := True,
                   submitMessage := Str []\<rparr>,
          pending := pending \<lparr> ui = jane, pending = [], clears = 0 \<rparr> @
                     [ui \<lparr> ui = jane, pending = [], clears = 0 \<rparr>]\<rparr>)"
    by (rule reachable.later)
  then show ?thesis
    by (simp add: awaiting_reply_def)
qed

text \<open>
  Claim C8. \<open>isSubmitting\<close> is true exactly while one request is out: in every state a
  session can reach, the flag is true iff a request is pending, and at most one is. The
  handler sets it only after \<open>validateForm\<close> has returned true, on the way to sending the
  request, leaves it alone when validation fails, and sets it back to false when the
  request settles, whatever the outcome.
\<close>

theorem isSubmitting_while_request_pending:
  "(reachable toNumber s \<longrightarrow>
      (isSubmitting (ui s) \<longleftrightarrow> pending s \<noteq> []) \<and> length (pending s) \<le> 1) \<and>
   (handleSubmit_begin toNumber st = NotSent st1 \<longrightarrow>
      \<not> fst (validateForm toNumber st) \<and> isSubmitting st1 = isSubmitting st) \<and>
   (handleSubmit_begin toNumber st = Sent st1 payload \<longrightarrow>
      fst (validateForm toNumber st) \<and> isSubmitting st1) \<and>
   \<not> isSubmitting (fst (handleSubmit_settle snap res cur))"
  using reachable_invariant [of toNumber s] handleSubmit_begin_NotSent [of toNumber st st1]
    handleSubmit_begin_Sent [of toNumber st st1 payload]
    handleSubmit_settle_isSubmitting [of snap res cur]
  by simp

theorem isSubmitting_while_request_pending_witness:
  "reachable integerLiteralToNumber awaiting_reply \<and>
   isSubmitting (ui awaiting_reply) \<and> pending awaiting_reply = [jane] \<and>
   reachable integerLiteralToNumber session_start \<and>
   \<not> isSubmitting (ui session_start) \<and> pending session_start = [] \<and>
   handleSubmit_begin integerLiteralToNumber jane =
     Sent ((snd (validateForm integerLiteralToNumber jane))\<lparr>isSubmitting := True,
       submitMessage := Str []\<rparr>) (formData jane) \<and>
   fst (validateForm integerLiteralToNumber jane) \<and>
   handleSubmit_begin integerLiteralToNumber initial =
     NotSent ((snd (validateForm integerLiteralToNumber initial))\<lparr>messageType := lit ''error'',
       submitMessage := Str (lit ''Please fix the errors before submitting.'')\<rparr>) \<and>
   \<not> fst (validateForm integerLiteralToNumber initial) \<and>
   \<not> isSubmitting ((snd (validateForm integerLiteralToNumber initial))\<lparr>messageType := lit ''error'',
       submitMessage := Str (lit ''Please fix the errors before submitting.'')\<rparr>)"
proof -
  have r0: "reachable integerLiteralToNumber session_start"
    unfolding session_start_def by (rule reachable.start)
  note b0 = handleSubmit_begin_invalid [OF initial_invalid]
  have idle: "\<not> isSubmitting initial"
    by (simp add: initial_def)
  from isSubmitting_while_request_pending [where toNumber = integerLiteralToNumber
        and s = awaiting_reply and st = jane and payload = "formData jane"
        and ?st1.0 = "(snd (validateForm integerLiteralToNumber jane))\<lparr>isSubmitting := True,
          submitMessage := Str []\<rparr>"]
    isSubmitting_while_request_pending [where toNumber = integerLiteralToNumber
        and s = session_start and st = initial
        and ?st1.0 = "(snd (validateForm integerLiteralToNumber initial))\<lparr>messageType := lit ''error'',
          submitMessage := Str (lit ''Please fix the errors before submitting.'')\<rparr>"]
    awaiting_reply_reachable r0 jane_begin b0 idle
  show ?thesis
    by (simp add: awaiting_reply_def session_start_def)
qed

section \<open>Failed submissions keep the form\<close>

lemma handleSubmit_settle_Rejected_formData:
  "formData (fst (handleSubmit_settle snap (Rejected e) cur)) = formData cur"
  by (simp add: handleSubmit_settle_def Let_def)

lemma success_is_not_error: "lit ''success'' \<noteq> lit ''error''"
  by (simp add: lit_def)

lemma handleSubmit_error_formData:
  assumes "messageType (final (handleSubmit toNumber post st)) = lit ''error''"
  shows "formData (final (handleSubmit toNumber post st)) = formData st"
proof (cases "fst (validateForm toNumber st)")
  case False
  then show ?thesis
    by (simp add: handleSubmit_def handleSubmit_begin_invalid validateForm_formData)
next
  case True
  note valid = handleSubmit_begin_valid [OF True]
  show ?thesis
  proof (cases "post (formData st)")
    case (Fulfilled r)
    with assms valid have False
      by (simp add: handleSubmit_def handleSubmit_settle_def Let_def success_is_not_error)
    then show ?thesis ..
  next
    case (Rejected e)
    with valid show ?thesis
      by (simp add: handleSubmit_def handleSubmit_settle_def Let_def validateForm_formData)
  qed
qed

text \<open>
  Claim C9. A submission that ends in a failure (the message type is "error": validation
  failed, or the request was rejected by a timeout, an HTTP error or a network error)
  leaves the name, the age and the file of the form as they were when \<open>handleSubmit\<close> was
  called.
\<close>

theorem failure_keeps_formData:
  "(messageType (final (handleSubmit toNumber post st)) = lit ''error'' \<longrightarrow>
      formData (final (handleSubmit toNumber post st)) = formData st) \<and>
   (handleSubmit_begin toNumber st = NotSent st1 \<longrightarrow> formData st1 = formData st) \<and>
   formData (fst (handleSubmit_settle snap (Rejected e) cur)) = formData cur"
  using handleSubmit_error_formData [of toNumber post st]
    handleSubmit_begin_NotSent [of toNumber st st1]
    handleSubmit_settle_Rejected_formData [of snap e cur]
  by simp

theorem failure_keeps_formData_witness:
  "messageType (final (handleSubmit integerLiteralToNumber server_times_out jane_with_pdf)) =
     lit ''error'' \<and>
   formData (final (handleSubmit integerLiteralToNumber server_times_out jane_with_pdf)) =
     \<lparr> name = lit ''Jane Doe'', age = lit ''34'', file' = Some full_pdf \<rparr> \<and>
   handleSubmit_begin integerLiteralToNumber initial =
     NotSent ((snd (validateForm integerLiteralToNumber initial))\<lparr>messageType := lit ''error'',
       submitMessage := Str (lit ''Please fix the errors before submitting.'')\<rparr>) \<and>
   formData ((snd (validateForm integerLiteralToNumber initial))\<lparr>messageType := lit ''error'',
       submitMessage := Str (lit ''Please fix the errors before submitting.'')\<rparr>) =
     formData initial"
proof -
  note b0 = handleSubmit_begin_invalid [OF initial_invalid]
  have failed:
    "messageType (final (handleSubmit integerLiteralToNumber server_times_out jane_with_pdf)) =
      lit ''error''"
    by (simp add: handleSubmit_def handleSubmit_begin_valid [OF jane_with_pdf_valid]
          handleSubmit_settle_def server_times_out_def Let_def)
  from failure_keeps_formData [where toNumber = integerLiteralToNumber
        and post = server_times_out and st = jane_with_pdf]
    failure_keeps_formData [where toNumber = integerLiteralToNumber and st = initial
        and ?st1.0 = "(snd (validateForm integerLiteralToNumber initial))\<lparr>messageType := lit ''error'',
          submitMessage := Str (lit ''Please fix the errors before submitting.'')\<rparr>"]
    failed b0
  show ?thesis
    by (simp add: jane_with_pdf_formData)
qed

section \<open>What the other handlers leave alone\<close>

text \<open>
  Claim C10. \<open>handleInputChange\<close>, \<open>handleFileSelection\<close> and \<open>validateForm\<close>, and with
  them the drop, file-input and drag handlers, leave \<open>isSubmitting\<close>, \<open>submitMessage\<close> and
  \<open>messageType\<close> unchanged: only \<open>handleSubmit\<close> (and the timer it starts) sets them.
\<close>

theorem only_handleSubmit_sets_submission_state:
  "isSubmitting (handleInputChange k v st) = isSubmitting st \<and>
   submitMessage (handleInputChange k v st) = submitMessage st \<and>
   messageType (handleInputChange k v st) = messageType st \<and>
   isSubmitting (handleFileSelection f st) = isSubmitting st \<and>
   submitMessage (handleFileSelection f st) = submitMessage st \<and>
   messageType (handleFileSelection f st) = messageType st \<and>
   isSubmitting (snd (validateForm toNumber st)) = isSubmitting st \<and>
   submitMessage (snd (validateForm toNumber st)) = submitMessage st \<and>
   messageType (snd (validateForm toNumber st)) = messageType st \<and>
   isSubmitting (handleDrop files st) = isSubmitting st \<and>
   submitMessage (handleDrop files st) = submitMessage st \<and>
   messageType (handleDrop files st) = messageType st \<and>
   isSubmitting (handleFileChange files st) = isSubmitting st \<and>
   submitMessage (handleFileChange files st) = submitMessage st \<and>
   messageType (handleFileChange files st) = messageType st \<and>
   isSubmitting (handleDragOver st) = isSubmitting st \<and>
   submitMessage (handleDragOver st) = submitMessage st \<and>
   messageType (handleDragOver st) = messageType st \<and>
   isSubmitting (handleDragLeave st) = isSubmitting st \<and>
   submitMessage (handleDragLeave st) = submitMessage st \<and>
   messageType (handleDragLeave st) = messageType st"
  by (simp add: handleInputChange_def handleFileSelection_def handleDrop_def
        handleFileChange_def handleDragOver_def handleDragLeave_def
        validateForm_def Let_def split: list.split)

end
